theory Spec2Isabelle
  imports Main "HOL-Library.Word"
begin

section \<open>Result codes (packages/engine/src/enums.ts)\<close>

text \<open>
  A TypeScript numeric enum is a list of members, each with an optional initialiser.
  A member without initialiser takes the value of the member before it plus one, and
  zero when it is the first member.  \<open>enum_members\<close> computes the values by that rule.
\<close>

type_synonym enum_decl = "(string \<times> nat option) list"

fun enum_members :: "nat \<Rightarrow> enum_decl \<Rightarrow> (string \<times> nat) list" where
  "enum_members nxt [] = []"
| "enum_members nxt ((name, None) # ms) = (name, nxt) # enum_members (Suc nxt) ms"
| "enum_members nxt ((name, Some v) # ms) = (name, v) # enum_members (Suc v) ms"

text \<open>The declaration of \<open>VulframResult\<close>, member by member, as enums.ts writes it.\<close>

definition VulframResult_decl :: enum_decl where
  "VulframResult_decl =
    [(''Success'', Some 0),
     (''UnknownError'', Some 1),
     (''NotInitialized'', None),
     (''AlreadyInitialized'', None),
     (''WrongThread'', None),
     (''BufferOverflow'', None),
     (''WinitError'', Some 1000),
     (''WgpuInstanceError'', Some 2000),
     (''CmdInvalidCborError'', Some 3000)]"

definition VulframResult :: "(string \<times> nat) list" where
  "VulframResult = enum_members 0 VulframResult_decl"

section \<open>The host runtime\<close>

type_synonym u8 = "8 word"
type_synonym u32 = "32 word"
type_synonym u64 = "64 word"

text \<open>The exceptions the host code can raise; none of them is caught in the sources.\<close>

datatype exn = RangeError | TypeError | DecodeError

text \<open>
  \<open>new Uint8Array(n)\<close> and \<open>Buffer.alloc(n)\<close>: a zero-filled byte array of length \<open>n\<close>,
  or a RangeError when \<open>n\<close> exceeds the largest length \<open>lim\<close> the engine allocates.
  ECMAScript bounds every typed-array length by \<open>2 ^ 53 - 1\<close>.  The length is
  \<open>Number(x)\<close> of a 64-bit \<open>x\<close>, which is exact below \<open>2 ^ 53\<close> and at least \<open>2 ^ 53\<close>
  from there on, so the model passes \<open>unat x\<close> and refuses every length from \<open>2 ^ 53\<close>.
\<close>

definition alloc_bytes :: "nat \<Rightarrow> nat \<Rightarrow> exn + u8 list" where
  "alloc_bytes lim n =
     (if n \<le> lim \<and> n < 2 ^ 53 then Inr (replicate n 0) else Inl RangeError)"

section \<open>The pointer-returning binding (bind/ts/src/ffi/index.ts)\<close>

text \<open>
  What one native call leaves behind: its 32-bit return value and the contents of the
  two one-element \<open>BigUint64Array\<close> holders whose addresses it was given.  Both holders
  are zero before the call.
\<close>

record native_out =
  code :: u32
  ptrHolder :: u64
  sizeHolder :: u64

text \<open>
  The native core as this binding observes it: the reply of each of the four
  buffer-returning symbols, and the native memory \<open>read.u8\<close> reads afterwards.
\<close>

record ffi_core =
  engine_download_buffer :: "u64 \<Rightarrow> native_out"
  engine_receive_queue :: native_out
  engine_receive_events :: native_out
  engine_get_profiling :: native_out
  memory :: "nat \<Rightarrow> u8"

text \<open>\<open>read.u8(ptr, offset)\<close>: the byte at address \<open>ptr + offset\<close>.\<close>

definition read_u8 :: "(nat \<Rightarrow> u8) \<Rightarrow> nat \<Rightarrow> nat \<Rightarrow> u8" where
  "read_u8 mem p off = mem (p + off)"

text \<open>
  \<open>BufferResult\<close>, extended by the effect the function has besides its value: the offsets
  it handed to \<open>read.u8\<close>, in order.  Each offset is also the index of \<open>buffer\<close> written.
\<close>

record BufferResult =
  buffer :: "u8 list"
  result :: u32

record traced_result = BufferResult +
  reads :: "nat list"

text \<open>\<open>for (let i = 0; i < buffer.length; i++) buffer[i] = read.u8(srcPtr, i)\<close>\<close>

function copy_loop ::
  "(nat \<Rightarrow> u8) \<Rightarrow> nat \<Rightarrow> nat \<Rightarrow> u8 list \<Rightarrow> nat list \<Rightarrow> u8 list \<times> nat list" where
  "copy_loop mem srcPtr i buf log =
     (if i < length buf
      then copy_loop mem srcPtr (i + 1) (buf[i := read_u8 mem srcPtr i]) (log @ [i])
      else (buf, log))"
  by pat_completeness auto
termination
  by (relation "measure (\<lambda>(mem, srcPtr, i, buf, log). length buf - i)") auto

declare copy_loop.simps [simp del]

text \<open>
  The four functions that return a buffer.  Each makes one native call and then runs the
  same statements: an empty buffer when the size holder is zero, an empty buffer when the
  pointer holder is zero, and otherwise a buffer of the reported size filled byte by byte.
  \<open>lim\<close> is the allocation limit of the host.  The handle \<open>ident\<close> is the 64-bit value
  the call receives, after \<open>BigInt(id)\<close>.  \<open>Number(ptrHolder[0])\<close> is read exactly:
  addresses are below \<open>2 ^ 53\<close>.
\<close>

definition engineDownloadBuffer :: "nat \<Rightarrow> ffi_core \<Rightarrow> u64 \<Rightarrow> exn + traced_result" where
  "engineDownloadBuffer lim core ident =
     (let reply = engine_download_buffer core ident in
      if sizeHolder reply = 0
      then Inr \<lparr>buffer = [], result = code reply, reads = []\<rparr>
      else
        let srcPtr = unat (ptrHolder reply) in
        if srcPtr = 0
        then Inr \<lparr>buffer = [], result = code reply, reads = []\<rparr>
        else
          (case alloc_bytes lim (unat (sizeHolder reply)) of
             Inl e \<Rightarrow> Inl e
           | Inr buf0 \<Rightarrow>
               (case copy_loop (memory core) srcPtr 0 buf0 [] of
                  (buf, log) \<Rightarrow> Inr \<lparr>buffer = buf, result = code reply, reads = log\<rparr>)))"

definition engineReceiveQueue :: "nat \<Rightarrow> ffi_core \<Rightarrow> exn + traced_result" where
  "engineReceiveQueue lim core =
     (let reply = engine_receive_queue core in
      if sizeHolder reply = 0
      then Inr \<lparr>buffer = [], result = code reply, reads = []\<rparr>
      else
        let srcPtr = unat (ptrHolder reply) in
        if srcPtr = 0
        then Inr \<lparr>buffer = [], result = code reply, reads = []\<rparr>
        else
          (case alloc_bytes lim (unat (sizeHolder reply)) of
             Inl e \<Rightarrow> Inl e
           | Inr buf0 \<Rightarrow>
               (case copy_loop (memory core) srcPtr 0 buf0 [] of
                  (buf, log) \<Rightarrow> Inr \<lparr>buffer = buf, result = code reply, reads = log\<rparr>)))"

definition engineReceiveEvents :: "nat \<Rightarrow> ffi_core \<Rightarrow> exn + traced_result" where
  "engineReceiveEvents lim core =
     (let reply = engine_receive_events core in
      if sizeHolder reply = 0
      then Inr \<lparr>buffer = [], result = code reply, reads = []\<rparr>
      else
        let srcPtr = unat (ptrHolder reply) in
        if srcPtr = 0
        then Inr \<lparr>buffer = [], result = code reply, reads = []\<rparr>
        else
          (case alloc_bytes lim (unat (sizeHolder reply)) of
             Inl e \<Rightarrow> Inl e
           | Inr buf0 \<Rightarrow>
               (case copy_loop (memory core) srcPtr 0 buf0 [] of
                  (buf, log) \<Rightarrow> Inr \<lparr>buffer = buf, result = code reply, reads = log\<rparr>)))"

definition engineGetProfiling :: "nat \<Rightarrow> ffi_core \<Rightarrow> exn + traced_result" where
  "engineGetProfiling lim core =
     (let reply = engine_get_profiling core in
      if sizeHolder reply = 0
      then Inr \<lparr>buffer = [], result = code reply, reads = []\<rparr>
      else
        let srcPtr = unat (ptrHolder reply) in
        if srcPtr = 0
        then Inr \<lparr>buffer = [], result = code reply, reads = []\<rparr>
        else
          (case alloc_bytes lim (unat (sizeHolder reply)) of
             Inl e \<Rightarrow> Inl e
           | Inr buf0 \<Rightarrow>
               (case copy_loop (memory core) srcPtr 0 buf0 [] of
                  (buf, log) \<Rightarrow> Inr \<lparr>buffer = buf, result = code reply, reads = log\<rparr>)))"

text \<open>
  The statements after the native call, as a function of the reply: the four functions
  above are this function of their reply, which the proofs below use.
\<close>

definition copy_out :: "nat \<Rightarrow> (nat \<Rightarrow> u8) \<Rightarrow> native_out \<Rightarrow> exn + traced_result" where
  "copy_out lim mem reply =
     (if sizeHolder reply = 0
      then Inr \<lparr>buffer = [], result = code reply, reads = []\<rparr>
      else
        let srcPtr = unat (ptrHolder reply) in
        if srcPtr = 0
        then Inr \<lparr>buffer = [], result = code reply, reads = []\<rparr>
        else
          (case alloc_bytes lim (unat (sizeHolder reply)) of
             Inl e \<Rightarrow> Inl e
           | Inr buf0 \<Rightarrow>
               (case copy_loop mem srcPtr 0 buf0 [] of
                  (buf, log) \<Rightarrow> Inr \<lparr>buffer = buf, result = code reply, reads = log\<rparr>)))"

text \<open>
  Three sample cores.  \<open>core_null\<close> reports three bytes and a null pointer from every
  symbol; \<open>core_abc\<close> reports three bytes at address 4096, where its memory holds
  97, 98, 99; \<open>core_huge\<close> reports \<open>2 ^ 53\<close> bytes at address 4096.
\<close>

definition core_null :: ffi_core where
  "core_null =
     \<lparr>engine_download_buffer = (\<lambda>_. \<lparr>code = 0, ptrHolder = 0, sizeHolder = 3\<rparr>),
      engine_receive_queue = \<lparr>code = 0, ptrHolder = 0, sizeHolder = 3\<rparr>,
      engine_receive_events = \<lparr>code = 0, ptrHolder = 0, sizeHolder = 3\<rparr>,
      engine_get_profiling = \<lparr>code = 0, ptrHolder = 0, sizeHolder = 3\<rparr>,
      memory = (\<lambda>_. 0)\<rparr>"

definition abc_memory :: "nat \<Rightarrow> u8" where
  "abc_memory a = (if a = 4096 then 97 else if a = 4097 then 98 else if a = 4098 then 99 else 0)"

definition core_abc :: ffi_core where
  "core_abc =
     \<lparr>engine_download_buffer = (\<lambda>_. \<lparr>code = 0, ptrHolder = 4096, sizeHolder = 3\<rparr>),
      engine_receive_queue = \<lparr>code = 0, ptrHolder = 4096, sizeHolder = 3\<rparr>,
      engine_receive_events = \<lparr>code = 0, ptrHolder = 4096, sizeHolder = 3\<rparr>,
      engine_get_profiling = \<lparr>code = 0, ptrHolder = 4096, sizeHolder = 3\<rparr>,
      memory = abc_memory\<rparr>"


section \<open>The two-phase binding (part_004)\<close>

text \<open>
  What one call of a buffer-returning symbol leaves behind in this binding: the return
  value, the bytes the core stored through the destination pointer (counted from its
  start; nothing is stored through a null destination), and the contents of the length
  holder afterwards.
\<close>

record fill_out =
  status :: u32
  written :: "u8 list"
  lengthHolder :: u64

text \<open>
  The native core is a state machine over a state \<open>'n\<close> the host never sees.  A call
  takes the state, the destination (\<open>None\<close> for \<open>null\<close>, otherwise the host buffer as
  it is) and the current contents of the length holder.  The core may answer the second
  call of a download differently from the first.
\<close>

record 'n vulfram_core =
  engine_download_buffer_2p :: "'n \<Rightarrow> u64 \<Rightarrow> u8 list option \<Rightarrow> u64 \<Rightarrow> fill_out \<times> 'n"
  engine_receive_queue_2p :: "'n \<Rightarrow> u8 list option \<Rightarrow> u64 \<Rightarrow> fill_out \<times> 'n"

text \<open>
  The host's view of its \<open>Uint8Array\<close> after the core stored \<open>w\<close> through its address:
  the bytes that land inside the array replace its contents, and its length stays.
\<close>

definition store_bytes :: "u8 list \<Rightarrow> u8 list \<Rightarrow> u8 list" where
  "store_bytes w buf = take (length buf) w @ drop (length w) buf"

definition vulframDownloadBuffer ::
  "nat \<Rightarrow> 'n vulfram_core \<Rightarrow> u64 \<Rightarrow> 'n \<Rightarrow> (exn + u8 list \<times> u32) \<times> 'n" where
  "vulframDownloadBuffer lim core ident s0 =
     (case engine_download_buffer_2p core s0 ident None 0 of
        (r1, s1) \<Rightarrow>
          if status r1 \<noteq> 0 \<or> lengthHolder r1 = 0
          then (Inr ([], status r1), s1)
          else
            (case alloc_bytes lim (unat (lengthHolder r1)) of
               Inl e \<Rightarrow> (Inl e, s1)
             | Inr buf0 \<Rightarrow>
                 (case engine_download_buffer_2p core s1 ident (Some buf0) (lengthHolder r1) of
                    (r2, s2) \<Rightarrow>
                      if status r2 \<noteq> 0
                      then (Inr ([], status r2), s2)
                      else (Inr (store_bytes (written r2) buf0, status r2), s2))))"

text \<open>
  \<open>decode\<close> is the function of that name of the \<open>cbor2\<close> package, a parameter here:
  it returns the decoded batch or raises.  The source calls it outside any \<open>try\<close>.
\<close>

definition vulframReceiveQueue ::
  "nat \<Rightarrow> (u8 list \<Rightarrow> exn + 'e list) \<Rightarrow> 'n vulfram_core \<Rightarrow> 'n
     \<Rightarrow> (exn + 'e list \<times> u32) \<times> 'n" where
  "vulframReceiveQueue lim decode core s0 =
     (case engine_receive_queue_2p core s0 None 0 of
        (r1, s1) \<Rightarrow>
          if status r1 \<noteq> 0 \<or> lengthHolder r1 = 0
          then (Inr ([], status r1), s1)
          else
            (case alloc_bytes lim (unat (lengthHolder r1)) of
               Inl e \<Rightarrow> (Inl e, s1)
             | Inr buf0 \<Rightarrow>
                 (case engine_receive_queue_2p core s1 (Some buf0) (lengthHolder r1) of
                    (r2, s2) \<Rightarrow>
                      if status r2 \<noteq> 0
                      then (Inr ([], status r2), s2)
                      else
                        (case decode (store_bytes (written r2) buf0) of
                           Inl e \<Rightarrow> (Inl e, s2)
                         | Inr events \<Rightarrow> (Inr (events, status r2), s2)))))"

text \<open>
  A sample core for concrete runs: its state is the list of replies still to give, one
  per call, whatever the arguments; once the list is empty it answers \<open>UnknownError\<close>.
\<close>

definition next_reply :: "fill_out list \<Rightarrow> u64 \<Rightarrow> fill_out \<times> fill_out list" where
  "next_reply s len =
     (case s of
        [] \<Rightarrow> (\<lparr>status = 1, written = [], lengthHolder = len\<rparr>, [])
      | r # rs \<Rightarrow> (r, rs))"

definition scripted_core :: "fill_out list vulfram_core" where
  "scripted_core =
     \<lparr>engine_download_buffer_2p = (\<lambda>s ident dest len. next_reply s len),
      engine_receive_queue_2p = (\<lambda>s dest len. next_reply s len)\<rparr>"

text \<open>
  A sample decoder for concrete runs: it accepts the one byte \<open>0x80\<close>, the CBOR encoding of
  the empty array, and raises on every other input.
\<close>

definition decode_empty_only :: "u8 list \<Rightarrow> exn + unit list" where
  "decode_empty_only bs = (if bs = [0x80] then Inr [] else Inl DecodeError)"

section \<open>The engine event union\<close>

text \<open>
  \<open>EngineEvent\<close> of packages/engine/src/events.ts: one member per value of the \<open>type\<close>
  field.  The content types are parameters; the statements here are about the outer tag.
\<close>

datatype ('w, 'p, 'k, 'g, 'j, 's) EngineEvent =
    Window 'w
  | Pointer 'p
  | Keyboard 'k
  | Gamepad 'g
  | Joystick 'j
  | System 's

text \<open>The \<open>type\<close> field of a member.\<close>

fun type_tag :: "('w, 'p, 'k, 'g, 'j, 's) EngineEvent \<Rightarrow> string" where
  "type_tag (Window c) = ''window''"
| "type_tag (Pointer c) = ''pointer''"
| "type_tag (Keyboard c) = ''keyboard''"
| "type_tag (Gamepad c) = ''gamepad''"
| "type_tag (Joystick c) = ''joystick''"
| "type_tag (System c) = ''system''"

text \<open>The type guards of events.ts.\<close>

definition isWindowEvent :: "('w, 'p, 'k, 'g, 'j, 's) EngineEvent \<Rightarrow> bool" where
  "isWindowEvent event = (type_tag event = ''window'')"

definition isPointerEvent :: "('w, 'p, 'k, 'g, 'j, 's) EngineEvent \<Rightarrow> bool" where
  "isPointerEvent event = (type_tag event = ''pointer'')"

definition isKeyboardEvent :: "('w, 'p, 'k, 'g, 'j, 's) EngineEvent \<Rightarrow> bool" where
  "isKeyboardEvent event = (type_tag event = ''keyboard'')"

definition isGamepadEvent :: "('w, 'p, 'k, 'g, 'j, 's) EngineEvent \<Rightarrow> bool" where
  "isGamepadEvent event = (type_tag event = ''gamepad'')"

definition isJoystickEvent :: "('w, 'p, 'k, 'g, 'j, 's) EngineEvent \<Rightarrow> bool" where
  "isJoystickEvent event = (type_tag event = ''joystick'')"

definition isSystemEvent :: "('w, 'p, 'k, 'g, 'j, 's) EngineEvent \<Rightarrow> bool" where
  "isSystemEvent event = (type_tag event = ''system'')"

text \<open>
  \<open>EngineEvent\<close> of part_001, the declaration the two-phase binding imports for the
  batches \<open>vulframReceiveQueue\<close> returns.
\<close>

datatype ('w, 'p, 'k, 'g, 's) EngineEvent_cmds =
    Window_cmds 'w
  | Pointer_cmds 'p
  | Keyboard_cmds 'k
  | Gamepad_cmds 'g
  | System_cmds 's

fun type_tag_cmds :: "('w, 'p, 'k, 'g, 's) EngineEvent_cmds \<Rightarrow> string" where
  "type_tag_cmds (Window_cmds c) = ''window''"
| "type_tag_cmds (Pointer_cmds c) = ''pointer''"
| "type_tag_cmds (Keyboard_cmds c) = ''keyboard''"
| "type_tag_cmds (Gamepad_cmds c) = ''gamepad''"
| "type_tag_cmds (System_cmds c) = ''system''"

section \<open>The symbol tables given to dlopen\<close>

text \<open>The argument and return types of \<open>bun:ffi\<close>.\<close>

datatype ffi_type =
    I8 | I16 | I32 | I64 | U8 | U16 | U32 | U64 | Usize
  | F32 | F64 | Bool | Ptr | CString | Void

type_synonym symbol_table = "(string \<times> ffi_type list \<times> ffi_type) list"

text \<open>\<open>VULFRAM_CORE\<close> of bind/ts/src/ffi/index.ts, entry by entry.\<close>

definition VULFRAM_CORE :: symbol_table where
  "VULFRAM_CORE =
    [(''engine_clear_buffer'', [U64], U32),
     (''engine_dispose'', [], U32),
     (''engine_download_buffer'', [U64, Ptr, Ptr], U32),
     (''engine_init'', [], U32),
     (''engine_receive_queue'', [Ptr, Ptr], U32),
     (''engine_receive_events'', [Ptr, Ptr], U32),
     (''engine_send_queue'', [Ptr, Usize], U32),
     (''engine_tick'', [U64, U32], U32),
     (''engine_upload_buffer'', [U64, Ptr, Usize], U32),
     (''engine_get_profiling'', [Ptr, Ptr], U32)]"

text \<open>\<open>VULFRAM_CORE\<close> of part_004, entry by entry.\<close>

definition VULFRAM_CORE_2p :: symbol_table where
  "VULFRAM_CORE_2p =
    [(''engine_init'', [], U32),
     (''engine_dispose'', [], U32),
     (''engine_send_queue'', [Ptr, Usize], U32),
     (''engine_receive_queue'', [Ptr, Ptr], U32),
     (''engine_upload_buffer'', [U64, Ptr, Usize], U32),
     (''engine_download_buffer'', [U64, Ptr, Ptr], U32),
     (''engine_clear_buffer'', [U64], U32),
     (''engine_tick'', [U64, U32], U32)]"

definition symbol_names :: "symbol_table \<Rightarrow> string list" where
  "symbol_names t = map fst t"

definition returns_u32 :: "symbol_table \<Rightarrow> bool" where
  "returns_u32 t = list_all (\<lambda>(name, args, ret). ret = U32) t"

definition plain_args :: "symbol_table \<Rightarrow> bool" where
  "plain_args t = list_all (\<lambda>(name, args, ret). list_all (\<lambda>a. a \<in> {U32, U64, Usize, Ptr}) args) t"

text \<open>The symbols whose last two arguments are the given pair.\<close>

definition ending_with :: "ffi_type \<Rightarrow> ffi_type \<Rightarrow> symbol_table \<Rightarrow> string list" where
  "ending_with a b t =
     map fst (filter (\<lambda>(name, args, ret). 2 \<le> length args \<and> drop (length args - 2) args = [a, b]) t)"

section \<open>Closing the library at exit\<close>

text \<open>
  The part of \<open>process\<close> the sources use: listeners registered by \<open>on\<close> and \<open>once\<close>.
  Every listener the sources register has the same body, the call of \<open>close\<close>, so the
  state counts those calls.
\<close>

record listener =
  event_name :: string
  once :: bool

record process_state =
  listeners :: "listener list"
  closes :: nat

definition process_on :: "string \<Rightarrow> process_state \<Rightarrow> process_state" where
  "process_on name st = st\<lparr>listeners := listeners st @ [\<lparr>event_name = name, once = False\<rparr>]\<rparr>"

definition process_once :: "string \<Rightarrow> process_state \<Rightarrow> process_state" where
  "process_once name st = st\<lparr>listeners := listeners st @ [\<lparr>event_name = name, once = True\<rparr>]\<rparr>"

text \<open>
  Emitting an event runs every listener registered for it, and forgets those registered
  by \<open>once\<close>.
\<close>

definition emit :: "string \<Rightarrow> process_state \<Rightarrow> process_state" where
  "emit name st =
     \<lparr>listeners = filter (\<lambda>l. \<not> (event_name l = name \<and> once l)) (listeners st),
      closes = closes st + length (filter (\<lambda>l. event_name l = name) (listeners st))\<rparr>"

text \<open>
  The process after the module is loaded: bind/ts/src/ffi/index.ts registers with
  \<open>process.once\<close>, part_004 with \<open>process.on\<close>, both for \<open>beforeExit\<close>.
\<close>

definition loaded :: process_state where
  "loaded = process_once ''beforeExit'' \<lparr>listeners = [], closes = 0\<rparr>"

definition loaded_2p :: process_state where
  "loaded_2p = process_on ''beforeExit'' \<lparr>listeners = [], closes = 0\<rparr>"

text \<open>
  A termination is the sequence of events the runtime emits before the process ends:
  \<open>beforeExit\<close> then \<open>exit\<close> when the event loop runs empty, \<open>exit\<close> alone after
  \<open>process.exit()\<close> or an uncaught exception, none when the process is killed.
\<close>

definition terminate :: "string list \<Rightarrow> process_state \<Rightarrow> process_state" where
  "terminate evs st = fold emit evs st"

section \<open>Finding the project root (part_003)\<close>












section \<open>Theorems\<close>

subsection \<open>Result codes\<close>

text \<open>
  C5: the result-code enum assigns 0 to success, 1 to unknown error, 2 to not
  initialized, 3 to already initialized, 4 to wrong thread, 5 to buffer overflow, and the
  bases 1000, 2000 and 3000 to the windowing, graphics-backend and command-decoding
  errors; no two members share a value, so the number alone names the member.
\<close>

theorem C5_result_code_values:
  "VulframResult =
     [(''Success'', 0), (''UnknownError'', 1), (''NotInitialized'', 2),
      (''AlreadyInitialized'', 3), (''WrongThread'', 4), (''BufferOverflow'', 5),
      (''WinitError'', 1000), (''WgpuInstanceError'', 2000),
      (''CmdInvalidCborError'', 3000)]
   \<and> distinct (map snd VulframResult)"
  by (simp add: VulframResult_def VulframResult_decl_def)

subsection \<open>Allocation and the copy loop\<close>

lemma replicate3: "replicate 3 x = [x, x, x]"
  by (simp add: numeral_3_eq_3)


lemma length_store_bytes: "length (store_bytes w buf) = length buf"
  by (simp add: store_bytes_def)

lemma alloc_bytes_Inr:
  "alloc_bytes lim n = Inr b \<Longrightarrow> b = replicate n 0 \<and> n \<le> lim \<and> n < 2 ^ 53"
  by (auto simp: alloc_bytes_def split: if_splits)

lemma alloc_bytes_ok: "n \<le> lim \<Longrightarrow> n < 2 ^ 53 \<Longrightarrow> alloc_bytes lim n = Inr (replicate n 0)"
  by (simp add: alloc_bytes_def)

lemma copy_loop_exact:
  "i \<le> length buf \<Longrightarrow> copy_loop mem p i buf log =
     (take i buf @ map (read_u8 mem p) [i..<length buf], log @ [i..<length buf])"
proof (induction mem p i buf log rule: copy_loop.induct)
  case (1 mem srcPtr i buf log)
  show ?case
  proof (cases "i < length buf")
    case True
    have "copy_loop mem srcPtr i buf log =
          copy_loop mem srcPtr (i + 1) (buf[i := read_u8 mem srcPtr i]) (log @ [i])"
      using True by (subst copy_loop.simps) simp
    also have "\<dots> = (take (i + 1) (buf[i := read_u8 mem srcPtr i])
                       @ map (read_u8 mem srcPtr) [i + 1..<length buf],
                     (log @ [i]) @ [i + 1..<length buf])"
      using 1 True by simp
    also have "take (i + 1) (buf[i := read_u8 mem srcPtr i]) = take i buf @ [read_u8 mem srcPtr i]"
      using True by (simp add: take_Suc_conv_app_nth)
    finally show ?thesis using True by (simp add: upt_conv_Cons)
  next
    case False
    with 1 show ?thesis by (subst copy_loop.simps) simp
  qed
qed

lemma copy_loop_from_0:
  "copy_loop mem p 0 buf [] = (map (read_u8 mem p) [0..<length buf], [0..<length buf])"
  using copy_loop_exact [of 0 buf mem p "[]"] by simp

lemma engineDownloadBuffer_copy_out:
  "engineDownloadBuffer lim core ident =
     copy_out lim (memory core) (engine_download_buffer core ident)"
  by (simp add: engineDownloadBuffer_def copy_out_def Let_def)

lemma engineReceiveQueue_copy_out:
  "engineReceiveQueue lim core = copy_out lim (memory core) (engine_receive_queue core)"
  by (simp add: engineReceiveQueue_def copy_out_def Let_def)

lemma engineReceiveEvents_copy_out:
  "engineReceiveEvents lim core = copy_out lim (memory core) (engine_receive_events core)"
  by (simp add: engineReceiveEvents_def copy_out_def Let_def)

lemma engineGetProfiling_copy_out:
  "engineGetProfiling lim core = copy_out lim (memory core) (engine_get_profiling core)"
  by (simp add: engineGetProfiling_def copy_out_def Let_def)

lemma copy_out_empty:
  "sizeHolder reply = 0 \<or> ptrHolder reply = 0 \<Longrightarrow>
     copy_out lim mem reply = Inr \<lparr>buffer = [], result = code reply, reads = []\<rparr>"
  by (auto simp: copy_out_def)


lemma copy_out_bounds:
  "copy_out lim mem reply = Inr out \<Longrightarrow>
     length (buffer out) \<le> unat (sizeHolder reply) \<and>
     (\<forall>i \<in> set (reads out). i < length (buffer out))"
  by (auto simp: copy_out_def Let_def copy_loop_from_0 split: if_splits sum.splits
           dest!: alloc_bytes_Inr)

lemma copy_out_reads:
  "copy_out lim mem reply = Inr out \<Longrightarrow> reads out \<noteq> [] \<Longrightarrow>
     sizeHolder reply \<noteq> 0 \<and> ptrHolder reply \<noteq> 0"
  by (auto simp: copy_out_def Let_def split: if_splits)

lemma core_abc_download:
  "engineDownloadBuffer 100 core_abc 7 = Inr \<lparr>buffer = [97, 98, 99], result = 0, reads = [0, 1, 2]\<rparr>"
  by (simp add: engineDownloadBuffer_copy_out copy_out_def Let_def core_abc_def alloc_bytes_def read_u8_def
      abc_memory_def copy_loop.simps replicate3)

subsection \<open>The download in two phases\<close>




subsection \<open>Decode failures in the receive queue\<close>

text \<open>
  C3, as the specification states it, at a concrete run: both native calls succeed, the
  one byte received is \<open>0xFF\<close>, the decoder raises, and \<open>vulframReceiveQueue\<close> raises
  with it instead of returning an error result with an empty batch.
\<close>

theorem C3_counterexample:
  "vulframReceiveQueue 100 decode_empty_only scripted_core
     [\<lparr>status = 0, written = [], lengthHolder = 1\<rparr>,
      \<lparr>status = 0, written = [0xFF], lengthHolder = 1\<rparr>]
   = (Inl DecodeError, [])"
  by (simp add: vulframReceiveQueue_def scripted_core_def next_reply_def alloc_bytes_def
      store_bytes_def decode_empty_only_def)

text \<open>
  C3, amended: \<open>vulframReceiveQueue\<close> returns the empty batch with the native result code
  when the first call fails or reports size zero, and when the second call fails.  When
  both calls return 0 (and the buffer could be allocated) it returns what \<open>decode\<close> makes
  of the buffer, with code 0; when \<open>decode\<close> raises, so does \<open>vulframReceiveQueue\<close>:
  the exception is not caught and no result is returned.
\<close>

theorem C3_receive_queue_outcomes:
  "(engine_receive_queue_2p core s0 None 0 = (r1, s1)
      \<and> (status r1 \<noteq> 0 \<or> lengthHolder r1 = 0) \<longrightarrow>
      vulframReceiveQueue lim decode core s0 = (Inr ([], status r1), s1))
   \<and> (engine_receive_queue_2p core s0 None 0 = (r1, s1)
       \<and> status r1 = 0 \<and> lengthHolder r1 \<noteq> 0
       \<and> unat (lengthHolder r1) \<le> lim \<and> unat (lengthHolder r1) < 2 ^ 53
       \<and> engine_receive_queue_2p core s1
            (Some (replicate (unat (lengthHolder r1)) 0)) (lengthHolder r1) = (r2, s2) \<longrightarrow>
      vulframReceiveQueue lim decode core s0 =
        (if status r2 \<noteq> 0 then (Inr ([], status r2), s2)
         else case decode (store_bytes (written r2) (replicate (unat (lengthHolder r1)) 0)) of
                Inl e \<Rightarrow> (Inl e, s2)
              | Inr events \<Rightarrow> (Inr (events, 0), s2)))"
proof (intro conjI impI)
  assume "engine_receive_queue_2p core s0 None 0 = (r1, s1)
      \<and> (status r1 \<noteq> 0 \<or> lengthHolder r1 = 0)"
  then show "vulframReceiveQueue lim decode core s0 = (Inr ([], status r1), s1)"
    by (auto simp: vulframReceiveQueue_def)
next
  assume a: "engine_receive_queue_2p core s0 None 0 = (r1, s1)
       \<and> status r1 = 0 \<and> lengthHolder r1 \<noteq> 0
       \<and> unat (lengthHolder r1) \<le> lim \<and> unat (lengthHolder r1) < 2 ^ 53
       \<and> engine_receive_queue_2p core s1
            (Some (replicate (unat (lengthHolder r1)) 0)) (lengthHolder r1) = (r2, s2)"
  then have "alloc_bytes lim (unat (lengthHolder r1)) = Inr (replicate (unat (lengthHolder r1)) 0)"
    by (simp add: alloc_bytes_ok)
  with a show "vulframReceiveQueue lim decode core s0 =
        (if status r2 \<noteq> 0 then (Inr ([], status r2), s2)
         else case decode (store_bytes (written r2) (replicate (unat (lengthHolder r1)) 0)) of
                Inl e \<Rightarrow> (Inl e, s2)
              | Inr events \<Rightarrow> (Inr (events, 0), s2))"
    by (simp add: vulframReceiveQueue_def split: sum.splits)
qed

theorem C3_receive_queue_outcomes_witness:
  "vulframReceiveQueue 100 decode_empty_only scripted_core
     [\<lparr>status = 2, written = [], lengthHolder = 0\<rparr>]
   = (Inr ([], 2), [])
   \<and> vulframReceiveQueue 100 decode_empty_only scripted_core
     [\<lparr>status = 0, written = [], lengthHolder = 1\<rparr>,
      \<lparr>status = 0, written = [0x80], lengthHolder = 1\<rparr>]
   = (Inr ([], 0), [])
   \<and> vulframReceiveQueue 100 decode_empty_only scripted_core
     [\<lparr>status = 0, written = [], lengthHolder = 1\<rparr>,
      \<lparr>status = 0, written = [0x18], lengthHolder = 1\<rparr>]
   = (Inl DecodeError, [])"
proof -
  let ?f = "\<lparr>status = 2, written = [], lengthHolder = 0\<rparr>"
  let ?a = "\<lparr>status = 0, written = [], lengthHolder = 1\<rparr>"
  let ?b = "\<lparr>status = 0, written = [0x80 :: u8], lengthHolder = 1\<rparr>"
  let ?d = "\<lparr>status = 0, written = [0x18 :: u8], lengthHolder = 1\<rparr>"
  have 1: "vulframReceiveQueue 100 decode_empty_only scripted_core [?f] = (Inr ([], 2), [])"
    using C3_receive_queue_outcomes [of scripted_core "[?f]" ?f "[]" 100 decode_empty_only ?f "[]"]
    by (simp add: scripted_core_def next_reply_def)
  have 2: "vulframReceiveQueue 100 decode_empty_only scripted_core [?a, ?b] = (Inr ([], 0), [])"
    using C3_receive_queue_outcomes [of scripted_core "[?a, ?b]" ?a "[?b]" 100 decode_empty_only ?b "[]"]
    by (simp add: scripted_core_def next_reply_def store_bytes_def decode_empty_only_def)
  have 3: "vulframReceiveQueue 100 decode_empty_only scripted_core [?a, ?d] = (Inl DecodeError, [])"
    using C3_receive_queue_outcomes [of scripted_core "[?a, ?d]" ?a "[?d]" 100 decode_empty_only ?d "[]"]
    by (simp add: scripted_core_def next_reply_def store_bytes_def decode_empty_only_def)
  from 1 2 3 show ?thesis by simp
qed

subsection \<open>Reads stay inside the host buffer\<close>

lemma vulframDownloadBuffer_length:
  "vulframDownloadBuffer lim core ident s0 = (Inr (buf, r), s') \<Longrightarrow>
     length buf \<le> unat (lengthHolder (fst (engine_download_buffer_2p core s0 ident None 0)))"
  by (auto simp: vulframDownloadBuffer_def length_store_bytes
           split: prod.splits if_splits sum.splits dest!: alloc_bytes_Inr)

lemma vulframReceiveQueue_decoded:
  "vulframReceiveQueue lim decode core s0 = (Inr (events, r), s') \<Longrightarrow>
     events = [] \<or>
     (\<exists>buf. length buf = unat (lengthHolder (fst (engine_receive_queue_2p core s0 None 0)))
            \<and> decode buf = Inr events)"
proof -
  assume a: "vulframReceiveQueue lim decode core s0 = (Inr (events, r), s')"
  obtain r1 s1 where c1: "engine_receive_queue_2p core s0 None 0 = (r1, s1)"
    by (cases "engine_receive_queue_2p core s0 None 0")
  show ?thesis
  proof (cases "status r1 \<noteq> 0 \<or> lengthHolder r1 = 0")
    case True
    with a c1 show ?thesis by (auto simp: vulframReceiveQueue_def)
  next
    case False
    show ?thesis
    proof (cases "alloc_bytes lim (unat (lengthHolder r1))")
      case (Inl e)
      with a c1 False show ?thesis by (simp add: vulframReceiveQueue_def)
    next
      case (Inr buf0)
      then have b0: "length buf0 = unat (lengthHolder r1)"
        by (auto dest: alloc_bytes_Inr)
      obtain r2 s2 where c2:
        "engine_receive_queue_2p core s1 (Some buf0) (lengthHolder r1) = (r2, s2)"
        by (cases "engine_receive_queue_2p core s1 (Some buf0) (lengthHolder r1)")
      show ?thesis
      proof (cases "status r2 \<noteq> 0")
        case True
        with a c1 c2 False Inr show ?thesis by (auto simp: vulframReceiveQueue_def)
      next
        case ok: False
        with a c1 c2 False Inr
        have "decode (store_bytes (written r2) buf0) = Inr events"
          by (auto simp: vulframReceiveQueue_def split: sum.splits)
        moreover have "length (store_bytes (written r2) buf0) = unat (lengthHolder r1)"
          by (simp add: length_store_bytes b0)
        ultimately show ?thesis using c1 by auto
      qed
    qed
  qed
qed

lemma grown_download:
  "vulframDownloadBuffer 100 scripted_core 7
     [\<lparr>status = 0, written = [], lengthHolder = 3\<rparr>,
      \<lparr>status = 0, written = [1, 2, 3, 4, 5], lengthHolder = 5\<rparr>]
   = (Inr ([1, 2, 3], 0), [])"
  by (simp add: vulframDownloadBuffer_def scripted_core_def next_reply_def alloc_bytes_def
      store_bytes_def)

text \<open>
  C4: in every buffer read the host stays inside the buffer it allocated from the
  first reported size.  The buffer \<open>vulframDownloadBuffer\<close> returns is never longer than
  the size of the first call, whatever the second call reports or stores; a batch
  \<open>vulframReceiveQueue\<close> returns is empty or decoded from a buffer of exactly that size;
  and in \<open>engineDownloadBuffer\<close>, \<open>engineReceiveQueue\<close>, \<open>engineReceiveEvents\<close> and
  \<open>engineGetProfiling\<close> every offset read and written by the copy loop is below the length
  of the returned buffer, which is at most the reported size.
\<close>

theorem C4_reads_within_buffer:
  "(\<forall>buf r s'. vulframDownloadBuffer lim core ident s0 = (Inr (buf, r), s') \<longrightarrow>
       length buf \<le> unat (lengthHolder (fst (engine_download_buffer_2p core s0 ident None 0))))
   \<and> (\<forall>events r s'. vulframReceiveQueue lim decode core s0 = (Inr (events, r), s') \<longrightarrow>
       events = [] \<or>
       (\<exists>buf. length buf = unat (lengthHolder (fst (engine_receive_queue_2p core s0 None 0)))
              \<and> decode buf = Inr events))
   \<and> (\<forall>out. engineDownloadBuffer lim fcore ident = Inr out \<longrightarrow>
       length (buffer out) \<le> unat (sizeHolder (engine_download_buffer fcore ident))
       \<and> (\<forall>i \<in> set (reads out). i < length (buffer out)))
   \<and> (\<forall>out. engineReceiveQueue lim fcore = Inr out \<longrightarrow>
       length (buffer out) \<le> unat (sizeHolder (engine_receive_queue fcore))
       \<and> (\<forall>i \<in> set (reads out). i < length (buffer out)))
   \<and> (\<forall>out. engineReceiveEvents lim fcore = Inr out \<longrightarrow>
       length (buffer out) \<le> unat (sizeHolder (engine_receive_events fcore))
       \<and> (\<forall>i \<in> set (reads out). i < length (buffer out)))
   \<and> (\<forall>out. engineGetProfiling lim fcore = Inr out \<longrightarrow>
       length (buffer out) \<le> unat (sizeHolder (engine_get_profiling fcore))
       \<and> (\<forall>i \<in> set (reads out). i < length (buffer out)))"
proof -
  have b: "\<forall>out. copy_out lim (memory fcore) reply = Inr out \<longrightarrow>
       length (buffer out) \<le> unat (sizeHolder reply)
       \<and> (\<forall>i \<in> set (reads out). i < length (buffer out))" for reply
    using copy_out_bounds [of lim "memory fcore" reply] by blast
  have d: "\<forall>buf r s'. vulframDownloadBuffer lim core ident s0 = (Inr (buf, r), s') \<longrightarrow>
       length buf \<le> unat (lengthHolder (fst (engine_download_buffer_2p core s0 ident None 0)))"
    using vulframDownloadBuffer_length [of lim core ident s0] by blast
  have q: "\<forall>events r s'. vulframReceiveQueue lim decode core s0 = (Inr (events, r), s') \<longrightarrow>
       events = [] \<or>
       (\<exists>buf. length buf = unat (lengthHolder (fst (engine_receive_queue_2p core s0 None 0)))
              \<and> decode buf = Inr events)"
    using vulframReceiveQueue_decoded [of lim decode core s0] by blast
  show ?thesis
    unfolding engineDownloadBuffer_copy_out engineReceiveQueue_copy_out engineReceiveEvents_copy_out
      engineGetProfiling_copy_out
    by (intro conjI b d q)
qed

theorem C4_reads_within_buffer_witness:
  "vulframDownloadBuffer 100 scripted_core 7
     [\<lparr>status = 0, written = [], lengthHolder = 3\<rparr>,
      \<lparr>status = 0, written = [1, 2, 3, 4, 5], lengthHolder = 5\<rparr>]
   = (Inr ([1, 2, 3], 0), [])
   \<and> length [1, 2, 3 :: u8]
       \<le> unat (lengthHolder (fst (engine_download_buffer_2p scripted_core
            [\<lparr>status = 0, written = [], lengthHolder = 3\<rparr>,
             \<lparr>status = 0, written = [1, 2, 3, 4, 5], lengthHolder = 5\<rparr>] 7 None 0)))
   \<and> engineDownloadBuffer 100 core_abc 7
       = Inr \<lparr>buffer = [97, 98, 99], result = 0, reads = [0, 1, 2]\<rparr>
   \<and> length [97, 98, 99 :: u8] \<le> unat (sizeHolder (engine_download_buffer core_abc 7))
   \<and> list_all (\<lambda>i. i < length [97, 98, 99 :: u8]) [0, 1, 2]"
proof -
  let ?s = "[\<lparr>status = 0, written = [], lengthHolder = 3\<rparr>,
             \<lparr>status = 0, written = [1, 2, 3, 4, 5 :: u8], lengthHolder = 5\<rparr>]"
  note th = C4_reads_within_buffer [of 100 scripted_core 7 ?s decode_empty_only core_abc]
  from th grown_download
  have 1: "length [1, 2, 3 :: u8]
       \<le> unat (lengthHolder (fst (engine_download_buffer_2p scripted_core ?s 7 None 0)))"
    by fastforce
  from th core_abc_download
  have 2: "length (buffer \<lparr>buffer = [97, 98, 99 :: u8], result = 0 :: u32, reads = [0, 1, 2]\<rparr>)
         \<le> unat (sizeHolder (engine_download_buffer core_abc 7))
       \<and> (\<forall>i \<in> set (reads \<lparr>buffer = [97, 98, 99 :: u8], result = 0 :: u32, reads = [0, 1, 2]\<rparr>).
            i < length (buffer \<lparr>buffer = [97, 98, 99 :: u8], result = 0 :: u32, reads = [0, 1, 2]\<rparr>))"
    by blast
  from 1 2 grown_download core_abc_download show ?thesis by simp
qed

subsection \<open>The outer tags of an engine event\<close>

lemma type_tag_in:
  "type_tag e \<in> {''window'', ''pointer'', ''keyboard'', ''gamepad'', ''joystick'', ''system''}"
  by (cases e) simp_all

lemma type_tag_onto:
  "{''window'', ''pointer'', ''keyboard'', ''gamepad'', ''joystick'', ''system''} \<subseteq> range type_tag"
proof -
  have "''window'' \<in> range type_tag" by (rule range_eqI [of _ _ "Window undefined"]) simp
  moreover have "''pointer'' \<in> range type_tag" by (rule range_eqI [of _ _ "Pointer undefined"]) simp
  moreover have "''keyboard'' \<in> range type_tag" by (rule range_eqI [of _ _ "Keyboard undefined"]) simp
  moreover have "''gamepad'' \<in> range type_tag" by (rule range_eqI [of _ _ "Gamepad undefined"]) simp
  moreover have "''joystick'' \<in> range type_tag" by (rule range_eqI [of _ _ "Joystick undefined"]) simp
  moreover have "''system'' \<in> range type_tag" by (rule range_eqI [of _ _ "System undefined"]) simp
  ultimately show ?thesis by (intro subsetI) (elim insertE emptyE; simp)
qed

lemma type_tag_cmds_in:
  "type_tag_cmds e \<in> {''window'', ''pointer'', ''keyboard'', ''gamepad'', ''system''}"
  by (cases e) simp_all

lemma type_tag_cmds_onto:
  "{''window'', ''pointer'', ''keyboard'', ''gamepad'', ''system''} \<subseteq> range type_tag_cmds"
proof -
  have "''window'' \<in> range type_tag_cmds"
    by (rule range_eqI [of _ _ "Window_cmds undefined"]) simp
  moreover have "''pointer'' \<in> range type_tag_cmds"
    by (rule range_eqI [of _ _ "Pointer_cmds undefined"]) simp
  moreover have "''keyboard'' \<in> range type_tag_cmds"
    by (rule range_eqI [of _ _ "Keyboard_cmds undefined"]) simp
  moreover have "''gamepad'' \<in> range type_tag_cmds"
    by (rule range_eqI [of _ _ "Gamepad_cmds undefined"]) simp
  moreover have "''system'' \<in> range type_tag_cmds"
    by (rule range_eqI [of _ _ "System_cmds undefined"]) simp
  ultimately show ?thesis by (intro subsetI) (elim insertE emptyE; simp)
qed

text \<open>
  C6, as the specification states it, fails for the declaration of part_001: no member
  of that union carries the tag \<open>joystick\<close>.
\<close>

theorem C6_counterexample:
  "''joystick'' \<notin> range (type_tag_cmds :: (unit, unit, unit, unit, unit) EngineEvent_cmds \<Rightarrow> string)"
proof
  assume "''joystick'' \<in> range (type_tag_cmds :: (unit, unit, unit, unit, unit) EngineEvent_cmds \<Rightarrow> string)"
  then obtain e :: "(unit, unit, unit, unit, unit) EngineEvent_cmds"
    where "type_tag_cmds e = ''joystick''" by auto
  then show False by (cases e) simp_all
qed

text \<open>
  C6, amended: the tags of \<open>EngineEvent\<close> of packages/engine/src/events.ts are exactly
  the six \<open>window\<close>, \<open>pointer\<close>, \<open>keyboard\<close>, \<open>gamepad\<close>, \<open>joystick\<close> and \<open>system\<close>:
  every value carries one of them, each of them is carried by some value, and one of the
  six type guards holds of every value.  The tags of \<open>EngineEvent\<close> of part_001 are
  exactly the five without \<open>joystick\<close>.
\<close>

theorem C6_event_tags:
  "range (type_tag :: ('w, 'p, 'k, 'g, 'j, 's) EngineEvent \<Rightarrow> string)
     = {''window'', ''pointer'', ''keyboard'', ''gamepad'', ''joystick'', ''system''}
   \<and> range (type_tag_cmds :: ('w, 'p, 'k, 'g, 's) EngineEvent_cmds \<Rightarrow> string)
     = {''window'', ''pointer'', ''keyboard'', ''gamepad'', ''system''}
   \<and> (isWindowEvent e \<or> isPointerEvent e \<or> isKeyboardEvent e \<or> isGamepadEvent e
        \<or> isJoystickEvent e \<or> isSystemEvent e)"
proof (intro conjI)
  show "range (type_tag :: ('w, 'p, 'k, 'g, 'j, 's) EngineEvent \<Rightarrow> string)
     = {''window'', ''pointer'', ''keyboard'', ''gamepad'', ''joystick'', ''system''}"
  proof (rule equalityI)
    show "range (type_tag :: ('w, 'p, 'k, 'g, 'j, 's) EngineEvent \<Rightarrow> string)
      \<subseteq> {''window'', ''pointer'', ''keyboard'', ''gamepad'', ''joystick'', ''system''}"
      using type_tag_in by blast
  qed (rule type_tag_onto)
  show "range (type_tag_cmds :: ('w, 'p, 'k, 'g, 's) EngineEvent_cmds \<Rightarrow> string)
     = {''window'', ''pointer'', ''keyboard'', ''gamepad'', ''system''}"
  proof (rule equalityI)
    show "range (type_tag_cmds :: ('w, 'p, 'k, 'g, 's) EngineEvent_cmds \<Rightarrow> string)
      \<subseteq> {''window'', ''pointer'', ''keyboard'', ''gamepad'', ''system''}"
      using type_tag_cmds_in by blast
  qed (rule type_tag_cmds_onto)
  show "isWindowEvent e \<or> isPointerEvent e \<or> isKeyboardEvent e \<or> isGamepadEvent e
        \<or> isJoystickEvent e \<or> isSystemEvent e"
    by (cases e)
       (simp_all add: isWindowEvent_def isPointerEvent_def isKeyboardEvent_def
          isGamepadEvent_def isJoystickEvent_def isSystemEvent_def)
qed

subsection \<open>The native call gateway\<close>

text \<open>
  C7, as the specification states it, fails on the count: the table of
  bind/ts/src/ffi/index.ts declares ten symbols and the table of part_004 eight, neither
  nine.
\<close>

theorem C7_counterexample:
  "length VULFRAM_CORE = 10 \<and> length VULFRAM_CORE_2p = 8"
  by (simp add: VULFRAM_CORE_def VULFRAM_CORE_2p_def)

text \<open>
  C7, amended: the gateway of bind/ts/src/ffi/index.ts exposes exactly the ten
  operations clear-buffer, dispose, download-buffer, init, receive-queue, receive-events,
  send-queue, tick, upload-buffer and get-profiling; the gateway of part_004 exactly eight
  of them, without receive-events and get-profiling.  Every symbol returns \<open>u32\<close> and takes
  only \<open>u32\<close>, \<open>u64\<close>, \<open>usize\<close> and pointer arguments.  The symbols that return a buffer
  end with two pointers (the destination or pointer holder, and the length holder); the
  symbols that send one end with a pointer and a \<open>usize\<close> length.
\<close>

theorem C7_gateway_symbols:
  "symbol_names VULFRAM_CORE =
     [''engine_clear_buffer'', ''engine_dispose'', ''engine_download_buffer'', ''engine_init'',
      ''engine_receive_queue'', ''engine_receive_events'', ''engine_send_queue'', ''engine_tick'',
      ''engine_upload_buffer'', ''engine_get_profiling'']
   \<and> distinct (symbol_names VULFRAM_CORE)
   \<and> symbol_names VULFRAM_CORE_2p =
     [''engine_init'', ''engine_dispose'', ''engine_send_queue'', ''engine_receive_queue'',
      ''engine_upload_buffer'', ''engine_download_buffer'', ''engine_clear_buffer'', ''engine_tick'']
   \<and> distinct (symbol_names VULFRAM_CORE_2p)
   \<and> returns_u32 VULFRAM_CORE \<and> returns_u32 VULFRAM_CORE_2p
   \<and> plain_args VULFRAM_CORE \<and> plain_args VULFRAM_CORE_2p
   \<and> ending_with Ptr Ptr VULFRAM_CORE =
       [''engine_download_buffer'', ''engine_receive_queue'', ''engine_receive_events'',
        ''engine_get_profiling'']
   \<and> ending_with Ptr Usize VULFRAM_CORE = [''engine_send_queue'', ''engine_upload_buffer'']
   \<and> ending_with Ptr Ptr VULFRAM_CORE_2p = [''engine_receive_queue'', ''engine_download_buffer'']
   \<and> ending_with Ptr Usize VULFRAM_CORE_2p = [''engine_send_queue'', ''engine_upload_buffer'']"
  by (simp add: symbol_names_def returns_u32_def plain_args_def ending_with_def
      VULFRAM_CORE_def VULFRAM_CORE_2p_def)

subsection \<open>Closing the library when the process ends\<close>

lemma emit_no_listeners:
  "emit name \<lparr>listeners = [], closes = n\<rparr> = \<lparr>listeners = [], closes = n\<rparr>"
  by (simp add: emit_def)

lemma terminate_no_listeners:
  "terminate evs \<lparr>listeners = [], closes = n\<rparr> = \<lparr>listeners = [], closes = n\<rparr>"
  by (induction evs) (simp_all add: terminate_def emit_no_listeners)

lemma terminate_once:
  "terminate evs \<lparr>listeners = [\<lparr>event_name = ''beforeExit'', once = True\<rparr>], closes = 0\<rparr>
     = (if ''beforeExit'' \<in> set evs then \<lparr>listeners = [], closes = 1\<rparr>
        else \<lparr>listeners = [\<lparr>event_name = ''beforeExit'', once = True\<rparr>], closes = 0\<rparr>)"
proof (induction evs)
  case Nil
  show ?case by (simp add: terminate_def)
next
  case (Cons ev evs)
  show ?case
  proof (cases "ev = ''beforeExit''")
    case True
    then have "terminate (ev # evs)
        \<lparr>listeners = [\<lparr>event_name = ''beforeExit'', once = True\<rparr>], closes = 0\<rparr>
      = terminate evs \<lparr>listeners = [], closes = 1\<rparr>"
      by (simp add: terminate_def emit_def)
    with True show ?thesis by (simp add: terminate_no_listeners)
  next
    case False
    then have "terminate (ev # evs)
        \<lparr>listeners = [\<lparr>event_name = ''beforeExit'', once = True\<rparr>], closes = 0\<rparr>
      = terminate evs \<lparr>listeners = [\<lparr>event_name = ''beforeExit'', once = True\<rparr>], closes = 0\<rparr>"
      by (auto simp: terminate_def emit_def)
    with False Cons.IH show ?thesis by auto
  qed
qed

lemma terminate_on:
  "terminate evs \<lparr>listeners = [\<lparr>event_name = ''beforeExit'', once = False\<rparr>], closes = n\<rparr>
     = \<lparr>listeners = [\<lparr>event_name = ''beforeExit'', once = False\<rparr>],
        closes = n + count_list evs ''beforeExit''\<rparr>"
proof (induction evs arbitrary: n)
  case Nil
  show ?case by (simp add: terminate_def)
next
  case (Cons ev evs)
  have "terminate (ev # evs)
        \<lparr>listeners = [\<lparr>event_name = ''beforeExit'', once = False\<rparr>], closes = n\<rparr>
      = terminate evs \<lparr>listeners = [\<lparr>event_name = ''beforeExit'', once = False\<rparr>],
          closes = n + (if ev = ''beforeExit'' then 1 else 0)\<rparr>"
    by (auto simp: terminate_def emit_def)
  then show ?case by (simp add: Cons.IH)
qed

text \<open>
  C8, as the specification states it, at concrete terminations: when the runtime emits
  \<open>exit\<close> alone, as after \<open>process.exit()\<close> or an uncaught exception, or nothing at all,
  as when the process is killed, \<open>close\<close> is not called in either binding.
\<close>

theorem C8_counterexample:
  "closes (terminate [''exit''] loaded) = 0 \<and> closes (terminate [''exit''] loaded_2p) = 0
   \<and> closes (terminate [] loaded) = 0 \<and> closes (terminate [] loaded_2p) = 0"
  by (simp add: terminate_def emit_def loaded_def loaded_2p_def process_once_def process_on_def)

text \<open>
  C8, amended: the library is closed by a listener for \<open>beforeExit\<close> and by nothing
  else.  In bind/ts/src/ffi/index.ts \<open>close\<close> is called once if the runtime emits
  \<open>beforeExit\<close> during the termination and not at all otherwise; in part_004 it is called
  once for each \<open>beforeExit\<close> the runtime emits.
\<close>

theorem C8_close_on_beforeExit:
  "closes (terminate evs loaded) = (if ''beforeExit'' \<in> set evs then 1 else 0)
   \<and> closes (terminate evs loaded_2p) = count_list evs ''beforeExit''"
  by (simp add: loaded_def loaded_2p_def process_once_def process_on_def terminate_once
      terminate_on)

theorem C8_close_on_beforeExit_witness:
  "closes (terminate [''beforeExit'', ''exit''] loaded) = 1
   \<and> closes (terminate [''beforeExit'', ''exit''] loaded_2p) = 1
   \<and> closes (terminate [''uncaughtException'', ''exit''] loaded) = 0"
  using C8_close_on_beforeExit [of "[''beforeExit'', ''exit'']"]
    C8_close_on_beforeExit [of "[''uncaughtException'', ''exit'']"]
  by simp

subsection \<open>The search for the project root\<close>





















subsection \<open>The null-pointer guard\<close>

text \<open>
  C10: when the native core reports a nonzero size and a null data pointer,
  \<open>engineDownloadBuffer\<close>, \<open>engineReceiveQueue\<close>, \<open>engineReceiveEvents\<close> and
  \<open>engineGetProfiling\<close> return an empty buffer with the native result code and read
  nothing through the pointer; the read loop runs (some offset is read) only when both the
  reported size and the reported pointer are nonzero.
\<close>

theorem C10_null_pointer_guard:
  "(sizeHolder (engine_download_buffer core ident) \<noteq> 0 \<and>
    ptrHolder (engine_download_buffer core ident) = 0 \<longrightarrow>
      engineDownloadBuffer lim core ident =
        Inr \<lparr>buffer = [], result = code (engine_download_buffer core ident), reads = []\<rparr>)
   \<and> (sizeHolder (engine_receive_queue core) \<noteq> 0 \<and> ptrHolder (engine_receive_queue core) = 0 \<longrightarrow>
      engineReceiveQueue lim core =
        Inr \<lparr>buffer = [], result = code (engine_receive_queue core), reads = []\<rparr>)
   \<and> (sizeHolder (engine_receive_events core) \<noteq> 0 \<and> ptrHolder (engine_receive_events core) = 0 \<longrightarrow>
      engineReceiveEvents lim core =
        Inr \<lparr>buffer = [], result = code (engine_receive_events core), reads = []\<rparr>)
   \<and> (sizeHolder (engine_get_profiling core) \<noteq> 0 \<and> ptrHolder (engine_get_profiling core) = 0 \<longrightarrow>
      engineGetProfiling lim core =
        Inr \<lparr>buffer = [], result = code (engine_get_profiling core), reads = []\<rparr>)
   \<and> (\<forall>out. engineDownloadBuffer lim core ident = Inr out \<and> reads out \<noteq> [] \<longrightarrow>
        sizeHolder (engine_download_buffer core ident) \<noteq> 0 \<and>
        ptrHolder (engine_download_buffer core ident) \<noteq> 0)
   \<and> (\<forall>out. engineReceiveQueue lim core = Inr out \<and> reads out \<noteq> [] \<longrightarrow>
        sizeHolder (engine_receive_queue core) \<noteq> 0 \<and> ptrHolder (engine_receive_queue core) \<noteq> 0)
   \<and> (\<forall>out. engineReceiveEvents lim core = Inr out \<and> reads out \<noteq> [] \<longrightarrow>
        sizeHolder (engine_receive_events core) \<noteq> 0 \<and> ptrHolder (engine_receive_events core) \<noteq> 0)
   \<and> (\<forall>out. engineGetProfiling lim core = Inr out \<and> reads out \<noteq> [] \<longrightarrow>
        sizeHolder (engine_get_profiling core) \<noteq> 0 \<and> ptrHolder (engine_get_profiling core) \<noteq> 0)"
proof -
  have e: "sizeHolder reply \<noteq> 0 \<and> ptrHolder reply = 0 \<longrightarrow>
      copy_out lim (memory core) reply = Inr \<lparr>buffer = [], result = code reply, reads = []\<rparr>"
    for reply
    by (simp add: copy_out_empty)
  have r: "\<forall>out. copy_out lim (memory core) reply = Inr out \<and> reads out \<noteq> [] \<longrightarrow>
      sizeHolder reply \<noteq> 0 \<and> ptrHolder reply \<noteq> 0"
    for reply
    using copy_out_reads [of lim "memory core" reply] by blast
  show ?thesis
    unfolding engineDownloadBuffer_copy_out engineReceiveQueue_copy_out engineReceiveEvents_copy_out
      engineGetProfiling_copy_out
    by (intro conjI e r)
qed

theorem C10_null_pointer_guard_witness:
  "engineDownloadBuffer 100 core_null 7 = Inr \<lparr>buffer = [], result = 0, reads = []\<rparr>
   \<and> engineReceiveQueue 100 core_null = Inr \<lparr>buffer = [], result = 0, reads = []\<rparr>
   \<and> engineReceiveEvents 100 core_null = Inr \<lparr>buffer = [], result = 0, reads = []\<rparr>
   \<and> engineGetProfiling 100 core_null = Inr \<lparr>buffer = [], result = 0, reads = []\<rparr>
   \<and> engineDownloadBuffer 100 core_abc 7
       = Inr \<lparr>buffer = [97, 98, 99], result = 0, reads = [0, 1, 2]\<rparr>
   \<and> sizeHolder (engine_download_buffer core_abc 7) \<noteq> 0
   \<and> ptrHolder (engine_download_buffer core_abc 7) \<noteq> 0"
proof -
  have null: "sizeHolder (engine_download_buffer core_null 7) \<noteq> 0"
    "ptrHolder (engine_download_buffer core_null 7) = 0"
    "sizeHolder (engine_receive_queue core_null) \<noteq> 0" "ptrHolder (engine_receive_queue core_null) = 0"
    "sizeHolder (engine_receive_events core_null) \<noteq> 0" "ptrHolder (engine_receive_events core_null) = 0"
    "sizeHolder (engine_get_profiling core_null) \<noteq> 0" "ptrHolder (engine_get_profiling core_null) = 0"
    "code (engine_download_buffer core_null 7) = 0" "code (engine_receive_queue core_null) = 0"
    "code (engine_receive_events core_null) = 0" "code (engine_get_profiling core_null) = 0"
    by (simp_all add: core_null_def)
  note abc = core_abc_download
  have ne: "reads \<lparr>buffer = [97, 98, 99 :: u8], result = 0 :: u32, reads = [0, 1, 2]\<rparr> \<noteq> []"
    by simp
  have "sizeHolder (engine_download_buffer core_abc 7) \<noteq> 0
        \<and> ptrHolder (engine_download_buffer core_abc 7) \<noteq> 0"
    using abc ne C10_null_pointer_guard [of core_abc 7 100] by metis
  with abc null C10_null_pointer_guard [of core_null 7 100] show ?thesis by simp
qed

end
